theory Spec2Isabelle
  imports Main "HOL-Library.Word"
begin

unbundle bit_operations_syntax

section \<open>UDS data frames: headers, AAD, nonce and CCMP framing (uds_data.cpp)\<close>

subsection \<open>Machine types\<close>

type_synonym u8 = "8 word"
type_synonym u16 = "16 word"
type_synonym size_t = "64 word"
type_synonym lword = "64 word"

text \<open>
  \<open>std::vector<u8>::size()\<close> as the 64-bit \<open>size_t\<close> the arithmetic of the source
  is done in.
\<close>

definition size_of :: "u8 list \<Rightarrow> size_t" where
  "size_of xs = of_nat (length xs)"

text \<open>
  Modelled from the spec: \<open>MacAddress\<close> (declared in nwm_uds.h, which is not part of the
  given source) is a fixed array of exactly 6 bytes with no internal structure.
\<close>

datatype MacAddress = MacAddress u8 u8 u8 u8 u8 u8

fun mac_bytes :: "MacAddress \<Rightarrow> u8 list" where
  "mac_bytes (MacAddress a b c d e f) = [a, b, c, d, e, f]"

text \<open>
  Modelled from the spec: \<open>u16_be\<close> (declared in common/swap.h, which is not part of
  the given source) holds a 16-bit value whose object representation is big-endian, most
  significant byte first, as section 6 of the specification says of both fields of the
  AAD.
\<close>

definition u16_be_bytes :: "u16 \<Rightarrow> u8 list" where
  "u16_be_bytes w = [ucast (drop_bit 8 w), ucast w]"

subsection \<open>GenerateCCMPAAD\<close>

text \<open>The anonymous struct of \<open>GenerateCCMPAAD\<close>, in declaration order.\<close>

record aad_struct =
  FC :: u16
  receiver :: MacAddress
  transmitter :: MacAddress
  destination :: MacAddress
  SC :: u16

definition DefaultFrameControl :: u16 where
  "DefaultFrameControl = 0x0841"

text \<open>
  \<open>memcpy\<close> of the struct: every member has alignment at most 2 and sits at an even
  offset, so the members follow one another without padding.
\<close>

definition aad_struct_bytes :: "aad_struct \<Rightarrow> u8 list" where
  "aad_struct_bytes s =
     u16_be_bytes (FC s) @ mac_bytes (receiver s) @ mac_bytes (transmitter s)
       @ mac_bytes (destination s) @ u16_be_bytes (SC s)"

definition GenerateCCMPAAD :: "MacAddress \<Rightarrow> MacAddress \<Rightarrow> u8 list" where
  "GenerateCCMPAAD sender rcv =
     aad_struct_bytes
       \<lparr>FC = DefaultFrameControl, receiver = rcv, transmitter = sender,
        destination = rcv, SC = 0\<rparr>"

subsection \<open>The CCM nonce\<close>

text \<open>
  \<open>packet_number\<close> and \<open>nonce\<close> are built by the same statements in
  \<open>DecryptDataFrame\<close> (lines 149-157) and in \<open>EncryptDataFrame\<close> (lines 200-208); each
  copy is modelled on its own.
\<close>

definition DecryptDataFrame_packet_number :: "u16 \<Rightarrow> u8 list" where
  "DecryptDataFrame_packet_number sequence_number =
     [0, 0, 0, 0,
      ucast (drop_bit 8 sequence_number AND 0xFF),
      ucast (sequence_number AND 0xFF)]"

definition DecryptDataFrame_nonce :: "MacAddress \<Rightarrow> u16 \<Rightarrow> u8 list" where
  "DecryptDataFrame_nonce sender sequence_number =
     ([0] @ mac_bytes sender) @ DecryptDataFrame_packet_number sequence_number"

definition EncryptDataFrame_packet_number :: "u16 \<Rightarrow> u8 list" where
  "EncryptDataFrame_packet_number sequence_number =
     [0, 0, 0, 0,
      ucast (drop_bit 8 sequence_number AND 0xFF),
      ucast (sequence_number AND 0xFF)]"

definition EncryptDataFrame_nonce :: "MacAddress \<Rightarrow> u16 \<Rightarrow> u8 list" where
  "EncryptDataFrame_nonce sender sequence_number =
     ([0] @ mac_bytes sender) @ EncryptDataFrame_packet_number sequence_number"

subsection \<open>What the caller of a frame function observes\<close>

text \<open>
  Both frame functions return a byte vector; \<open>Returns []\<close> is the \<open>return {}\<close> after the
  \<open>catch\<close>. Two more things can happen in the source and are kept apart from a return:
  a read outside the input buffer, and \<open>std::length_error\<close> from the constructor of the
  result vector, which is no \<open>CryptoPP::Exception\<close> and so is not caught.
\<close>

datatype outcome = Returns "u8 list" | Out_Of_Bounds | Uncaught_length_error

subsection \<open>The cryptographic library and the declarations of other headers\<close>

text \<open>
  Crypto++ is outside the repository, so its operations are parameters. A member that
  throws a \<open>CryptoPP::Exception\<close> returns the exception as a value. A \<open>ccm_cipher\<close>
  is one \<open>CCM<AES, 8>\<close> object, keyed by the arguments of the calls made on it so far:
  \<open>SetKeyWithIV key iv\<close>, then \<open>SpecifyDataLengths\<close> with the three declared lengths,
  then the authenticated filter run over the AAD channel and the default channel up to
  \<open>MessageEnd\<close>, giving the bytes \<open>MaxRetrievable\<close> counts.
\<close>

datatype crypto_exception =
  InvalidArgument | InvalidKeyLength | HashVerificationFailed | OtherError

record ccm_cipher =
  SetKeyWithIV :: "u8 list \<Rightarrow> u8 list \<Rightarrow> crypto_exception option"
  SpecifyDataLengths ::
    "u8 list \<Rightarrow> u8 list \<Rightarrow> lword \<Rightarrow> lword \<Rightarrow> lword \<Rightarrow> crypto_exception option"
  Filter ::
    "u8 list \<Rightarrow> u8 list \<Rightarrow> lword \<times> lword \<times> lword \<Rightarrow> u8 list \<Rightarrow> u8 list
      \<Rightarrow> crypto_exception + u8 list"

record crypto_library =
  MD5_CalculateDigest :: "u8 list \<Rightarrow> u8 list"
  CTR_Mode_ProcessData :: "u8 list \<Rightarrow> u8 list \<Rightarrow> u8 list \<Rightarrow> u8 list"
  CCM_Encryption :: ccm_cipher
  CCM_Decryption :: ccm_cipher

text \<open>
  Modelled from the spec: the members of \<open>SecureDataHeader\<close> (declared in uds_data.h,
  which is not part of the given source) and their widths, as section 6 of the
  specification lists them.
\<close>

record SecureDataHeader =
  protocol_size :: u16
  securedata_size :: u16
  is_management :: u8
  data_channel :: u8
  sequence_number :: u16
  dest_node_id :: u16
  src_node_id :: u16

text \<open>
  Modelled from the spec: the members of \<open>DataFrameCryptoCTR\<close> (uds_data.h) that
  \<open>GetDataCryptoCTR\<close> assigns, and the members of \<open>NetworkInfo\<close> (nwm_uds.h) it reads,
  with the widths of section 4.3: an 8-byte wireless-community id, a 1-byte network
  instance id and a 4-byte network id.
\<close>

record DataFrameCryptoCTR =
  ctr_host_mac :: MacAddress
  ctr_wlan_comm_id :: "64 word"
  ctr_id :: u8
  ctr_network_id :: "32 word"


text \<open>
  What the source takes from headers that are not given: the size and the object
  representation of the three structs it copies with \<open>memcpy\<close> or hashes
  (\<open>LLCHeader_bytes p\<close> is the image of a value-initialised \<open>LLCHeader\<close> whose
  \<open>protocol\<close> has been set to \<open>p\<close>), the value of the enumerator
  \<open>EtherType::SecureData\<close>, and \<open>HW::AES::GetNormalKey\<close>. They are parameters of the
  functions below.
\<close>

record declarations =
  sizeof_SecureDataHeader :: nat
  SecureDataHeader_bytes :: "SecureDataHeader \<Rightarrow> u8 list"
  LLCHeader_bytes :: "u16 \<Rightarrow> u8 list"
  DataFrameCryptoCTR_bytes :: "DataFrameCryptoCTR \<Rightarrow> u8 list"
  EtherType_SecureData :: u16
  GetNormalKey :: "nat \<Rightarrow> u8 list"

subsection \<open>GenerateLLCHeader and GenerateSecureDataHeader\<close>


text \<open>
  The struct as filled in before the \<open>memcpy\<close>. \<open>data_size\<close> is promoted to
  \<open>size_t\<close>, the sums are taken there, and the assignment to a 16-bit member keeps the
  low 16 bits.
\<close>

definition GenerateSecureDataHeader_struct ::
  "declarations \<Rightarrow> u16 \<Rightarrow> u8 \<Rightarrow> u16 \<Rightarrow> u16 \<Rightarrow> u16 \<Rightarrow> SecureDataHeader" where
  "GenerateSecureDataHeader_struct decls data_size channel dest_node src_node seq =
     \<lparr>protocol_size =
        ucast ((ucast data_size :: size_t) + of_nat (sizeof_SecureDataHeader decls)),
      securedata_size =
        ucast ((ucast data_size :: size_t) + of_nat (sizeof_SecureDataHeader decls) - 4),
      is_management = 0,
      data_channel = channel,
      sequence_number = seq,
      dest_node_id = dest_node,
      src_node_id = src_node\<rparr>"

definition GenerateSecureDataHeader ::
  "declarations \<Rightarrow> u16 \<Rightarrow> u8 \<Rightarrow> u16 \<Rightarrow> u16 \<Rightarrow> u16 \<Rightarrow> u8 list" where
  "GenerateSecureDataHeader decls data_size channel dest_node src_node seq =
     SecureDataHeader_bytes decls
       (GenerateSecureDataHeader_struct decls data_size channel dest_node src_node seq)"

subsection \<open>GetDataCryptoCTR and GenerateDataCCMPKey\<close>





subsection \<open>DecryptDataFrame and EncryptDataFrame\<close>

text \<open>
  \<open>int size = df.MaxRetrievable(); std::vector<u8> v(size); df.Get(v.data(), size);\<close>
  The count is narrowed to a 32-bit \<open>int\<close>; a negative one, converted back to
  \<open>size_t\<close>, is more than a vector can hold.
\<close>

definition Retrieve :: "u8 list \<Rightarrow> outcome" where
  "Retrieve queue =
     (let size = sint (ucast (size_of queue) :: 32 word)
      in if size < 0 then Uncaught_length_error else Returns (take (nat size) queue))"

text \<open>\<open>encrypted_payload.size() - 8\<close>, an unsigned subtraction in \<open>size_t\<close>.\<close>

definition DecryptDataFrame_message_length :: "u8 list \<Rightarrow> size_t" where
  "DecryptDataFrame_message_length encrypted_payload = size_of encrypted_payload - 8"

text \<open>
  The two \<open>ChannelPut\<close> calls on the default channel read
  \<open>[data, data + size - 8)\<close> and \<open>[data + size - 8, data + size)\<close>; with fewer than
  8 bytes of input neither range lies inside the buffer.
\<close>

definition DecryptDataFrame ::
  "crypto_library \<Rightarrow> u8 list \<Rightarrow> u8 list \<Rightarrow> MacAddress \<Rightarrow> MacAddress \<Rightarrow> u16 \<Rightarrow> outcome" where
  "DecryptDataFrame lib encrypted_payload ccmp_key sender rcv seq =
     (let aad = GenerateCCMPAAD sender rcv;
          nonce = DecryptDataFrame_nonce sender seq;
          d = CCM_Decryption lib;
          message_length = DecryptDataFrame_message_length encrypted_payload
      in case SetKeyWithIV d ccmp_key nonce of
           Some e \<Rightarrow> Returns []
         | None \<Rightarrow>
             (case SpecifyDataLengths d ccmp_key nonce (size_of aad) message_length 0 of
                Some e \<Rightarrow> Returns []
              | None \<Rightarrow>
                  if length encrypted_payload < 8 then Out_Of_Bounds
                  else
                    (case Filter d ccmp_key nonce (size_of aad, message_length, 0) aad
                            (take (length encrypted_payload - 8) encrypted_payload
                               @ drop (length encrypted_payload - 8) encrypted_payload) of
                       Inl e \<Rightarrow> Returns []
                     | Inr pdata \<Rightarrow> Retrieve pdata)))"

definition EncryptDataFrame ::
  "crypto_library \<Rightarrow> u8 list \<Rightarrow> u8 list \<Rightarrow> MacAddress \<Rightarrow> MacAddress \<Rightarrow> u16 \<Rightarrow> outcome" where
  "EncryptDataFrame lib payload ccmp_key sender rcv seq =
     (let aad = GenerateCCMPAAD sender rcv;
          nonce = EncryptDataFrame_nonce sender seq;
          d = CCM_Encryption lib
      in case SetKeyWithIV d ccmp_key nonce of
           Some e \<Rightarrow> Returns []
         | None \<Rightarrow>
             (case SpecifyDataLengths d ccmp_key nonce (size_of aad) (size_of payload) 0 of
                Some e \<Rightarrow> Returns []
              | None \<Rightarrow>
                  (case Filter d ccmp_key nonce (size_of aad, size_of payload, 0) aad payload of
                     Inl e \<Rightarrow> Returns []
                   | Inr cipher \<Rightarrow> Retrieve cipher)))"

subsection \<open>GenerateDataPayload\<close>


subsection \<open>The layouts the specification gives\<close>

text \<open>
  Modelled from the spec: the byte layouts of the structs whose declarations are not part
  of the given source, as sections 4.1, 4.3 and 6 of the specification word them.
  \<open>encode_link_header\<close> "serializes a 2-byte big-endian protocol identifier"; the
  secure-data header holds its seven members in the listed order, 16-bit members
  "little-endian"; the counter input is "host MAC (6 bytes) + wireless-community id
  (8 bytes) + network instance id (1 byte) + network id (4 bytes), concatenated in this
  exact order", the multi-byte members in network byte order.
\<close>

definition u16_le_bytes :: "u16 \<Rightarrow> u8 list" where
  "u16_le_bytes w = [ucast w, ucast (drop_bit 8 w)]"

definition u32_be_bytes :: "32 word \<Rightarrow> u8 list" where
  "u32_be_bytes w =
     [ucast (drop_bit 24 w), ucast (drop_bit 16 w), ucast (drop_bit 8 w), ucast w]"

definition u64_be_bytes :: "64 word \<Rightarrow> u8 list" where
  "u64_be_bytes w =
     [ucast (drop_bit 56 w), ucast (drop_bit 48 w), ucast (drop_bit 40 w),
      ucast (drop_bit 32 w), ucast (drop_bit 24 w), ucast (drop_bit 16 w),
      ucast (drop_bit 8 w), ucast w]"

definition encode_link_header :: "u16 \<Rightarrow> u8 list" where
  "encode_link_header protocol_id = u16_be_bytes protocol_id"

definition encode_secure_data_header :: "SecureDataHeader \<Rightarrow> u8 list" where
  "encode_secure_data_header h =
     u16_le_bytes (protocol_size h) @ u16_le_bytes (securedata_size h)
       @ [is_management h, data_channel h]
       @ u16_le_bytes (sequence_number h) @ u16_le_bytes (dest_node_id h)
       @ u16_le_bytes (src_node_id h)"

definition counter_input :: "DataFrameCryptoCTR \<Rightarrow> u8 list" where
  "counter_input c =
     mac_bytes (ctr_host_mac c) @ u64_be_bytes (ctr_wlan_comm_id c) @ [ctr_id c]
       @ u32_be_bytes (ctr_network_id c)"

text \<open>
  One instance of the declarations: the layouts above, a 12-byte secure-data header (the
  seven members without padding), and sample values for what the specification leaves
  open (the protocol identifier and the key store).
\<close>

definition example_declarations :: declarations where
  "example_declarations =
     \<lparr>sizeof_SecureDataHeader = 12,
      SecureDataHeader_bytes = encode_secure_data_header,
      LLCHeader_bytes = encode_link_header,
      DataFrameCryptoCTR_bytes = counter_input,
      EtherType_SecureData = 0x876D,
      GetNormalKey = (\<lambda>slot. replicate 16 (of_nat slot))\<rparr>"


subsection \<open>Library failures, stage by stage\<close>

text \<open>
  The library signals failure \<open>e\<close> to \<open>EncryptDataFrame\<close> when one of the three calls
  inside its \<open>try\<close> block throws \<open>e\<close>, the earlier ones having returned.
\<close>

definition EncryptDataFrame_library_failure ::
  "crypto_library \<Rightarrow> u8 list \<Rightarrow> u8 list \<Rightarrow> MacAddress \<Rightarrow> MacAddress \<Rightarrow> u16
    \<Rightarrow> crypto_exception \<Rightarrow> bool" where
  "EncryptDataFrame_library_failure lib payload ccmp_key sender rcv seq e =
     (let aad = GenerateCCMPAAD sender rcv;
          nonce = EncryptDataFrame_nonce sender seq;
          d = CCM_Encryption lib
      in SetKeyWithIV d ccmp_key nonce = Some e
         \<or> SetKeyWithIV d ccmp_key nonce = None
           \<and> SpecifyDataLengths d ccmp_key nonce (size_of aad) (size_of payload) 0 = Some e
         \<or> SetKeyWithIV d ccmp_key nonce = None
           \<and> SpecifyDataLengths d ccmp_key nonce (size_of aad) (size_of payload) 0 = None
           \<and> Filter d ccmp_key nonce (size_of aad, size_of payload, 0) aad payload = Inl e)"

text \<open>
  The same for \<open>DecryptDataFrame\<close>; its filter is reached with the two slices of an
  input that has at least the 8 bytes of a tag.
\<close>

definition DecryptDataFrame_library_failure ::
  "crypto_library \<Rightarrow> u8 list \<Rightarrow> u8 list \<Rightarrow> MacAddress \<Rightarrow> MacAddress \<Rightarrow> u16
    \<Rightarrow> crypto_exception \<Rightarrow> bool" where
  "DecryptDataFrame_library_failure lib encrypted_payload ccmp_key sender rcv seq e =
     (let aad = GenerateCCMPAAD sender rcv;
          nonce = DecryptDataFrame_nonce sender seq;
          d = CCM_Decryption lib;
          message_length = DecryptDataFrame_message_length encrypted_payload
      in SetKeyWithIV d ccmp_key nonce = Some e
         \<or> SetKeyWithIV d ccmp_key nonce = None
           \<and> SpecifyDataLengths d ccmp_key nonce (size_of aad) message_length 0 = Some e
         \<or> SetKeyWithIV d ccmp_key nonce = None
           \<and> SpecifyDataLengths d ccmp_key nonce (size_of aad) message_length 0 = None
           \<and> 8 \<le> length encrypted_payload
           \<and> Filter d ccmp_key nonce (size_of aad, message_length, 0) aad
                (take (length encrypted_payload - 8) encrypted_payload
                   @ drop (length encrypted_payload - 8) encrypted_payload) = Inl e)"


subsection \<open>What the frame functions expect of CCM\<close>

text \<open>
  The contract of an authenticated cipher with an 8-byte tag, as far as the frame
  functions rely on it. Round trip: what the encryption object produced for a key, a
  nonce, an AAD and a message under the declared lengths is 8 bytes longer than the
  message, and the decryption object set up with the same key, nonce and lengths accepts
  it and gives the message back.
\<close>

definition ccm_round_trip :: "crypto_library \<Rightarrow> bool" where
  "ccm_round_trip lib \<longleftrightarrow>
     (\<forall>key iv aad p c.
        SetKeyWithIV (CCM_Encryption lib) key iv = None
        \<and> SpecifyDataLengths (CCM_Encryption lib) key iv (size_of aad) (size_of p) 0 = None
        \<and> Filter (CCM_Encryption lib) key iv (size_of aad, size_of p, 0) aad p = Inr c
        \<longrightarrow> length c = length p + 8
          \<and> SetKeyWithIV (CCM_Decryption lib) key iv = None
          \<and> SpecifyDataLengths (CCM_Decryption lib) key iv (size_of aad) (size_of p) 0 = None
          \<and> Filter (CCM_Decryption lib) key iv (size_of aad, size_of p, 0) aad c = Inr p)"



subsection \<open>A stand-in for the library\<close>

text \<open>
  A small authenticated cipher with the interface above, for running the frame functions
  on concrete inputs. It has the parameter checks of CCM (RFC 3610): a key of 16, 24 or
  32 bytes, a nonce of 7 to 13 bytes, and for a nonce of \<open>n\<close> bytes a message length
  field of \<open>15 - n\<close> bytes, so at most \<open>2 ^ (8 * (15 - n)) - 1\<close> message bytes; the
  declared lengths must be the lengths of what is put. Its pad and its tag are byte
  sums, which is enough to have the contract without being a cipher.
\<close>

definition ccm_max_message_length :: "u8 list \<Rightarrow> nat" where
  "ccm_max_message_length iv = 2 ^ (8 * (15 - length iv)) - 1"

definition test_SetKeyWithIV :: "u8 list \<Rightarrow> u8 list \<Rightarrow> crypto_exception option" where
  "test_SetKeyWithIV key iv =
     (if length key = 16 \<or> length key = 24 \<or> length key = 32
      then (if 7 \<le> length iv \<and> length iv \<le> 13 then None else Some InvalidArgument)
      else Some InvalidKeyLength)"

definition test_SpecifyDataLengths ::
  "u8 list \<Rightarrow> u8 list \<Rightarrow> lword \<Rightarrow> lword \<Rightarrow> lword \<Rightarrow> crypto_exception option" where
  "test_SpecifyDataLengths key iv header_length message_length footer_length =
     (if ccm_max_message_length iv < unat message_length then Some InvalidArgument else None)"

definition test_pad :: "u8 list \<Rightarrow> u8 list \<Rightarrow> u8" where
  "test_pad key iv = sum_list key + sum_list iv"

definition test_tag :: "u8 list \<Rightarrow> u8 list \<Rightarrow> u8 list \<Rightarrow> u8 list \<Rightarrow> u8 list" where
  "test_tag key iv aad msg =
     (let s = test_pad key iv + sum_list aad + sum_list msg in [s, s, s, s, s, s, s, s])"

definition test_Encryption_Filter ::
  "u8 list \<Rightarrow> u8 list \<Rightarrow> lword \<times> lword \<times> lword \<Rightarrow> u8 list \<Rightarrow> u8 list
    \<Rightarrow> crypto_exception + u8 list" where
  "test_Encryption_Filter key iv lens aad data =
     (if unat (fst lens) = length aad \<and> unat (fst (snd lens)) = length data
      then Inr (map (\<lambda>b. b XOR test_pad key iv) data @ test_tag key iv aad data)
      else Inl InvalidArgument)"

definition test_Decryption_Filter ::
  "u8 list \<Rightarrow> u8 list \<Rightarrow> lword \<times> lword \<times> lword \<Rightarrow> u8 list \<Rightarrow> u8 list
    \<Rightarrow> crypto_exception + u8 list" where
  "test_Decryption_Filter key iv lens aad data =
     (if unat (fst lens) = length aad \<and> unat (fst (snd lens)) + 8 = length data
      then
        (let p = map (\<lambda>b. b XOR test_pad key iv) (take (unat (fst (snd lens))) data)
         in if drop (unat (fst (snd lens))) data = test_tag key iv aad p then Inr p
            else Inl HashVerificationFailed)
      else Inl InvalidArgument)"

definition test_library :: crypto_library where
  "test_library =
     \<lparr>MD5_CalculateDigest = (\<lambda>data. replicate 16 (sum_list data)),
      CTR_Mode_ProcessData = (\<lambda>key iv data. map (\<lambda>b. b XOR test_pad key iv) data),
      CCM_Encryption =
        \<lparr>SetKeyWithIV = test_SetKeyWithIV,
         SpecifyDataLengths = test_SpecifyDataLengths,
         Filter = test_Encryption_Filter\<rparr>,
      CCM_Decryption =
        \<lparr>SetKeyWithIV = test_SetKeyWithIV,
         SpecifyDataLengths = test_SpecifyDataLengths,
         Filter = test_Decryption_Filter\<rparr>\<rparr>"

text \<open>Inputs for running the frame functions.\<close>

definition example_key :: "u8 list" where
  "example_key = [0x00, 0x01, 0x02, 0x03, 0x04, 0x05, 0x06, 0x07,
                  0x08, 0x09, 0x0A, 0x0B, 0x0C, 0x0D, 0x0E, 0x0F]"

definition example_sender :: MacAddress where
  "example_sender = MacAddress 0x00 0x11 0x22 0x33 0x44 0x55"

definition example_receiver :: MacAddress where
  "example_receiver = MacAddress 0x66 0x77 0x88 0x99 0xAA 0xBB"

section \<open>Properties\<close>

subsection \<open>Bytes\<close>

lemma length_mac_bytes: "length (mac_bytes m) = 6"
  by (cases m) simp

lemma length_u16_be_bytes: "length (u16_be_bytes w) = 2"
  by (simp add: u16_be_bytes_def)

lemma ucast_mask_low_byte: "(ucast (w AND 0xFF :: u16) :: u8) = ucast w"
proof -
  have "ucast (w AND mask 8 :: u16) = (ucast w :: u8)"
    by (rule bit_word_eqI) (auto simp: bit_simps)
  then show ?thesis by (simp add: mask_eq_exp_minus_1)
qed

lemma unat_ucast_u16_u8: "unat (ucast (w::u16) :: u8) = unat w mod 256"
  by (simp add: unsigned_ucast_eq take_bit_eq_mod)

lemma u16_from_be_bytes:
  "256 * unat (ucast (drop_bit 8 w) :: u8) + unat (ucast w :: u8) = unat (w :: u16)"
proof -
  have "unat w < 65536"
    using unsigned_less [of w, where 'a = nat] by simp
  then have small: "unat w div 256 < 256"
    by simp
  have "unat (drop_bit 8 w) = unat w div 256"
    by (simp add: drop_bit_eq_div unat_div)
  with small have "unat (ucast (drop_bit 8 w) :: u8) = unat w div 256"
    by (simp only: unat_ucast_u16_u8 mod_less)
  then show ?thesis
    by (simp only: unat_ucast_u16_u8) simp
qed

subsection \<open>The additional authenticated data\<close>

text \<open>
  Claim C4. For every sender and receiver address, \<open>GenerateCCMPAAD\<close> returns exactly
  22 bytes: the frame control 0x0841 as a big-endian 16-bit value (bytes 0x08, 0x41),
  the receiver address, the transmitter address (the sender), the destination address
  (the receiver again), and the sequence control 0 as a big-endian 16-bit value.
\<close>

theorem GenerateCCMPAAD_layout:
  "GenerateCCMPAAD sender rcv =
     [0x08, 0x41] @ mac_bytes rcv @ mac_bytes sender @ mac_bytes rcv @ [0, 0]
   \<and> length (GenerateCCMPAAD sender rcv) = 22"
proof -
  have fc: "u16_be_bytes DefaultFrameControl = [0x08, 0x41]"
    by (simp add: u16_be_bytes_def DefaultFrameControl_def drop_bit_eq_div)
  have sc: "u16_be_bytes 0 = [0, 0]"
    by (simp add: u16_be_bytes_def)
  show ?thesis
    by (simp add: GenerateCCMPAAD_def aad_struct_bytes_def fc sc length_mac_bytes)
qed

subsection \<open>The nonce\<close>

lemma packet_number_big_endian:
  "EncryptDataFrame_packet_number n = [0, 0, 0, 0, ucast (drop_bit 8 n), ucast n]"
  "DecryptDataFrame_packet_number n = [0, 0, 0, 0, ucast (drop_bit 8 n), ucast n]"
  by (simp_all only: EncryptDataFrame_packet_number_def DecryptDataFrame_packet_number_def
      ucast_mask_low_byte)

text \<open>
  Claim C5. For every sender address and 16-bit sequence number the nonce of
  \<open>EncryptDataFrame\<close> is 13 bytes: the priority byte 0, the six bytes of the sender
  address, four zero bytes and the sequence number in two bytes, high byte first; the
  nonce of \<open>DecryptDataFrame\<close> is the same byte sequence.
\<close>

theorem CCM_nonce_layout:
  "EncryptDataFrame_nonce sender n =
     [0] @ mac_bytes sender @ [0, 0, 0, 0, ucast (drop_bit 8 n), ucast n]
   \<and> DecryptDataFrame_nonce sender n = EncryptDataFrame_nonce sender n
   \<and> length (EncryptDataFrame_nonce sender n) = 13
   \<and> 256 * unat (ucast (drop_bit 8 n) :: u8) + unat (ucast n :: u8) = unat n"
  by (simp add: EncryptDataFrame_nonce_def DecryptDataFrame_nonce_def
      packet_number_big_endian length_mac_bytes u16_from_be_bytes)

subsection \<open>The secure-data header\<close>

lemma ucast_size_t_u16: "(ucast (of_nat n :: size_t) :: u16) = of_nat n"
  by (rule bit_word_eqI) (auto simp: bit_simps)

lemma ucast_of_int_size_t_u16: "(ucast (word_of_int k :: size_t) :: u16) = word_of_int k"
  by (rule bit_word_eqI) (auto simp: bit_simps)

lemma ucast_minus_size_t_u16: "(ucast (x - y :: size_t) :: u16) = ucast x - ucast y"
proof -
  have "x - y = word_of_int (uint x - uint y)"
    by simp
  then have "(ucast (x - y) :: u16) = word_of_int (uint x - uint y)"
    by (simp only: ucast_of_int_size_t_u16)
  also have "\<dots> = word_of_int (uint x) - word_of_int (uint y)"
    by simp
  also have "\<dots> = ucast x - ucast y"
    by (metis ucast_of_int_size_t_u16 word_of_int_uint)
  finally show ?thesis .
qed

lemma securedata_size_word:
  "securedata_size (GenerateSecureDataHeader_struct decls L ch d s n)
     = protocol_size (GenerateSecureDataHeader_struct decls L ch d s n) - 4"
proof -
  have "(ucast (4 :: size_t) :: u16) = 4"
    by simp
  then show ?thesis
    by (simp add: GenerateSecureDataHeader_struct_def ucast_minus_size_t_u16)
qed

lemma protocol_size_mod:
  "unat (protocol_size (GenerateSecureDataHeader_struct decls L ch d s n))
     = (unat L + sizeof_SecureDataHeader decls) mod 65536"
proof -
  have "(ucast L :: size_t) + of_nat (sizeof_SecureDataHeader decls)
      = of_nat (unat L + sizeof_SecureDataHeader decls)"
    by simp
  then show ?thesis
    by (simp only: GenerateSecureDataHeader_struct_def SecureDataHeader.simps ucast_size_t_u16 unat_of_nat) simp
qed

lemma securedata_size_int:
  assumes "unat L + sizeof_SecureDataHeader decls \<le> 65535" "4 \<le> sizeof_SecureDataHeader decls"
  shows "uint (securedata_size (GenerateSecureDataHeader_struct decls L ch d s n))
     = uint (protocol_size (GenerateSecureDataHeader_struct decls L ch d s n)) - 4"
proof -
  let ?h = "GenerateSecureDataHeader_struct decls L ch d s n"
  have p: "unat (protocol_size ?h) = unat L + sizeof_SecureDataHeader decls"
    using assms by (simp add: protocol_size_mod)
  then have "4 \<le> unat (protocol_size ?h)" using assms by simp
  then have "(4 :: u16) \<le> protocol_size ?h"
    by (simp add: word_le_nat_alt)
  then have "uint (protocol_size ?h - 4) = uint (protocol_size ?h) - 4"
    by (simp add: uint_sub_if' word_le_def)
  then show ?thesis by (simp only: securedata_size_word)
qed

text \<open>
  Claim C6, amended. For every payload length \<open>L\<close> whose sum with the header size still
  fits the 16-bit size field (and a header of at least 4 bytes), and any channel, node
  ids and sequence number, the header has \<open>protocol_size = L + header_size\<close>,
  \<open>securedata_size = protocol_size - 4\<close> and \<open>is_management = 0\<close>, carries the other
  arguments in their members, and the returned buffer is the byte image of that struct.
\<close>

theorem GenerateSecureDataHeader_sizes:
  assumes "unat L + sizeof_SecureDataHeader decls \<le> 65535"
    and "4 \<le> sizeof_SecureDataHeader decls"
  shows "unat (protocol_size (GenerateSecureDataHeader_struct decls L ch d s n))
           = unat L + sizeof_SecureDataHeader decls
       \<and> uint (securedata_size (GenerateSecureDataHeader_struct decls L ch d s n))
           = uint (protocol_size (GenerateSecureDataHeader_struct decls L ch d s n)) - 4
       \<and> is_management (GenerateSecureDataHeader_struct decls L ch d s n) = 0
       \<and> data_channel (GenerateSecureDataHeader_struct decls L ch d s n) = ch
       \<and> sequence_number (GenerateSecureDataHeader_struct decls L ch d s n) = n
       \<and> dest_node_id (GenerateSecureDataHeader_struct decls L ch d s n) = d
       \<and> src_node_id (GenerateSecureDataHeader_struct decls L ch d s n) = s
       \<and> GenerateSecureDataHeader decls L ch d s n
           = SecureDataHeader_bytes decls (GenerateSecureDataHeader_struct decls L ch d s n)"
proof -
  have "unat (protocol_size (GenerateSecureDataHeader_struct decls L ch d s n))
           = unat L + sizeof_SecureDataHeader decls"
    using assms(1) by (simp add: protocol_size_mod)
  moreover note securedata_size_int [OF assms]
  moreover have "is_management (GenerateSecureDataHeader_struct decls L ch d s n) = 0"
    "data_channel (GenerateSecureDataHeader_struct decls L ch d s n) = ch"
    "sequence_number (GenerateSecureDataHeader_struct decls L ch d s n) = n"
    "dest_node_id (GenerateSecureDataHeader_struct decls L ch d s n) = d"
    "src_node_id (GenerateSecureDataHeader_struct decls L ch d s n) = s"
    by (simp_all add: GenerateSecureDataHeader_struct_def)
  ultimately show ?thesis
    by (simp add: GenerateSecureDataHeader_def)
qed

lemma example_declarations_simps:
  "sizeof_SecureDataHeader example_declarations = 12"
  "SecureDataHeader_bytes example_declarations = encode_secure_data_header"
  "LLCHeader_bytes example_declarations = encode_link_header"
  "DataFrameCryptoCTR_bytes example_declarations = counter_input"
  "EtherType_SecureData example_declarations = 0x876D"
  "GetNormalKey example_declarations = (\<lambda>slot. replicate 16 (of_nat slot))"
  by (simp_all add: example_declarations_def)

theorem GenerateSecureDataHeader_sizes_witness:
  "unat (protocol_size (GenerateSecureDataHeader_struct example_declarations 100 1 2 3 7)) = 112
   \<and> uint (securedata_size (GenerateSecureDataHeader_struct example_declarations 100 1 2 3 7)) = 108
   \<and> is_management (GenerateSecureDataHeader_struct example_declarations 100 1 2 3 7) = 0
   \<and> GenerateSecureDataHeader example_declarations 100 1 2 3 7
       = [112, 0, 108, 0, 0, 1, 7, 0, 2, 0, 3, 0]"
proof -
  have a: "unat (100 :: u16) + sizeof_SecureDataHeader example_declarations \<le> 65535"
    by (simp add: example_declarations_simps)
  have b: "4 \<le> sizeof_SecureDataHeader example_declarations"
    by (simp add: example_declarations_simps)
  have c: "GenerateSecureDataHeader_struct example_declarations 100 1 2 3 7
      = \<lparr>protocol_size = 112, securedata_size = 108, is_management = 0, data_channel = 1,
         sequence_number = 7, dest_node_id = 2, src_node_id = 3\<rparr>"
    by (simp add: GenerateSecureDataHeader_struct_def example_declarations_simps)
  have e: "encode_secure_data_header
       \<lparr>protocol_size = 112, securedata_size = 108, is_management = 0, data_channel = 1,
        sequence_number = 7, dest_node_id = 2, src_node_id = 3\<rparr>
      = [112, 0, 108, 0, 0, 1, 7, 0, 2, 0, 3, 0]"
    by (simp add: encode_secure_data_header_def u16_le_bytes_def drop_bit_eq_div)
  show ?thesis
    using GenerateSecureDataHeader_sizes [OF a b, of 1 2 3 7]
    by (simp add: c e example_declarations_simps)
qed

text \<open>
  The claim as stated, for every length that fits 16 bits, fails at \<open>L = 65535\<close>: the
  sum is cut to its low 16 bits.
\<close>

theorem GenerateSecureDataHeader_sizes_counterexample:
  "unat (protocol_size (GenerateSecureDataHeader_struct example_declarations 65535 0 0 0 0)) = 11
   \<and> unat (protocol_size (GenerateSecureDataHeader_struct example_declarations 65535 0 0 0 0))
       \<noteq> unat (65535 :: u16) + sizeof_SecureDataHeader example_declarations"
  by (simp add: GenerateSecureDataHeader_struct_def example_declarations_simps)

subsection \<open>The assembled payload\<close>





subsection \<open>The CCMP key\<close>




subsection \<open>Running the frame functions\<close>

lemma length_GenerateCCMPAAD: "length (GenerateCCMPAAD sender rcv) = 22"
  by (simp add: GenerateCCMPAAD_def aad_struct_bytes_def length_mac_bytes length_u16_be_bytes)

lemma size_of_aad: "size_of (GenerateCCMPAAD sender rcv) = 22"
  by (simp add: size_of_def length_GenerateCCMPAAD)

lemma Retrieve_small:
  assumes "length queue < 2 ^ 31"
  shows "Retrieve queue = Returns queue"
proof -
  have "(ucast (size_of queue) :: 32 word) = of_nat (length queue)"
    unfolding size_of_def by (rule bit_word_eqI) (auto simp: bit_simps)
  moreover have "sint (of_nat (length queue) :: 32 word) = int (length queue)"
    using assms by (simp add: signed_of_nat signed_take_bit_int_eq_self)
  ultimately show ?thesis
    by (simp add: Retrieve_def)
qed

subsection \<open>The stand-in library keeps the contract\<close>

lemma test_library_simps:
  "SetKeyWithIV (CCM_Encryption test_library) = test_SetKeyWithIV"
  "SpecifyDataLengths (CCM_Encryption test_library) = test_SpecifyDataLengths"
  "Filter (CCM_Encryption test_library) = test_Encryption_Filter"
  "SetKeyWithIV (CCM_Decryption test_library) = test_SetKeyWithIV"
  "SpecifyDataLengths (CCM_Decryption test_library) = test_SpecifyDataLengths"
  "Filter (CCM_Decryption test_library) = test_Decryption_Filter"
  by (simp_all add: test_library_def)

lemma xor_pad_twice: "map ((\<lambda>b. b XOR k) \<circ> (\<lambda>b. b XOR k)) xs = (xs :: u8 list)"
  by (induction xs) (simp_all add: xor.assoc)

lemma length_test_tag: "length (test_tag key iv aad msg) = 8"
  by (simp add: test_tag_def Let_def)

lemma test_library_round_trip: "ccm_round_trip test_library"
  unfolding ccm_round_trip_def test_library_simps
  by (auto simp: test_Encryption_Filter_def test_Decryption_Filter_def xor_pad_twice
      length_test_tag split: if_splits)


subsection \<open>Encryption followed by decryption\<close>

lemma DecryptDataFrame_message_length_of_cipher:
  assumes "length c = length p + 8"
  shows "DecryptDataFrame_message_length c = size_of p"
  using assms by (simp add: DecryptDataFrame_message_length_def size_of_def)

lemma EncryptDataFrame_nonempty:
  assumes "EncryptDataFrame lib P K S R N = Returns C" and "C \<noteq> []"
  obtains cipher where
    "SetKeyWithIV (CCM_Encryption lib) K (EncryptDataFrame_nonce S N) = None"
    "SpecifyDataLengths (CCM_Encryption lib) K (EncryptDataFrame_nonce S N)
       (size_of (GenerateCCMPAAD S R)) (size_of P) 0 = None"
    "Filter (CCM_Encryption lib) K (EncryptDataFrame_nonce S N)
       (size_of (GenerateCCMPAAD S R), size_of P, 0) (GenerateCCMPAAD S R) P = Inr cipher"
    "Retrieve cipher = Returns C"
  using assms
  by (auto simp: EncryptDataFrame_def Let_def split: option.splits sum.splits)

lemma nonce_same: "DecryptDataFrame_nonce S N = EncryptDataFrame_nonce S N"
  by (simp add: DecryptDataFrame_nonce_def EncryptDataFrame_nonce_def
      DecryptDataFrame_packet_number_def EncryptDataFrame_packet_number_def)

lemma DecryptDataFrame_of_EncryptDataFrame:
  assumes contract: "ccm_round_trip lib"
    and enc: "EncryptDataFrame lib P K S R N = Returns C"
    and nonempty: "C \<noteq> []"
    and small: "length P + 8 < 2 ^ 31"
  shows "length C = length P + 8" and "DecryptDataFrame lib C K S R N = Returns P"
proof -
  from enc nonempty obtain cipher where
    key: "SetKeyWithIV (CCM_Encryption lib) K (EncryptDataFrame_nonce S N) = None"
    and lens: "SpecifyDataLengths (CCM_Encryption lib) K (EncryptDataFrame_nonce S N)
       (size_of (GenerateCCMPAAD S R)) (size_of P) 0 = None"
    and filter: "Filter (CCM_Encryption lib) K (EncryptDataFrame_nonce S N)
       (size_of (GenerateCCMPAAD S R), size_of P, 0) (GenerateCCMPAAD S R) P = Inr cipher"
    and get: "Retrieve cipher = Returns C"
    by (rule EncryptDataFrame_nonempty)
  from contract key lens filter have
    len: "length cipher = length P + 8"
    and key': "SetKeyWithIV (CCM_Decryption lib) K (EncryptDataFrame_nonce S N) = None"
    and lens': "SpecifyDataLengths (CCM_Decryption lib) K (EncryptDataFrame_nonce S N)
       (size_of (GenerateCCMPAAD S R)) (size_of P) 0 = None"
    and filter': "Filter (CCM_Decryption lib) K (EncryptDataFrame_nonce S N)
       (size_of (GenerateCCMPAAD S R), size_of P, 0) (GenerateCCMPAAD S R) cipher = Inr P"
    unfolding ccm_round_trip_def by blast+
  from len small have "Retrieve cipher = Returns cipher"
    by (simp add: Retrieve_small)
  with get have C: "C = cipher"
    by simp
  with len show "length C = length P + 8"
    by simp
  from small have P: "Retrieve P = Returns P"
    by (simp add: Retrieve_small)
  from len have ml: "DecryptDataFrame_message_length cipher = size_of P"
    by (simp add: DecryptDataFrame_message_length_of_cipher)
  from len have long: "\<not> length cipher < 8"
    by simp
  have "DecryptDataFrame lib cipher K S R N = Returns P"
    using key' lens' filter' P long
    by (simp add: DecryptDataFrame_def Let_def nonce_same ml)
  with C show "DecryptDataFrame lib C K S R N = Returns P"
    by simp
qed

lemma EncryptDataFrame_no_failure:
  assumes "\<And>e. \<not> EncryptDataFrame_library_failure lib P K S R N e"
  obtains cipher where
    "Filter (CCM_Encryption lib) K (EncryptDataFrame_nonce S N)
       (size_of (GenerateCCMPAAD S R), size_of P, 0) (GenerateCCMPAAD S R) P = Inr cipher"
    "SetKeyWithIV (CCM_Encryption lib) K (EncryptDataFrame_nonce S N) = None"
    "SpecifyDataLengths (CCM_Encryption lib) K (EncryptDataFrame_nonce S N)
       (size_of (GenerateCCMPAAD S R)) (size_of P) 0 = None"
    "EncryptDataFrame lib P K S R N = Retrieve cipher"
proof -
  let ?d = "CCM_Encryption lib"
  let ?nonce = "EncryptDataFrame_nonce S N"
  let ?aad = "GenerateCCMPAAD S R"
  have key: "SetKeyWithIV ?d K ?nonce = None"
    using assms unfolding EncryptDataFrame_library_failure_def Let_def
    by (cases "SetKeyWithIV ?d K ?nonce") auto
  have lens: "SpecifyDataLengths ?d K ?nonce (size_of ?aad) (size_of P) 0 = None"
    using assms key unfolding EncryptDataFrame_library_failure_def Let_def
    by (cases "SpecifyDataLengths ?d K ?nonce (size_of ?aad) (size_of P) 0") auto
  obtain cipher where
    filter: "Filter ?d K ?nonce (size_of ?aad, size_of P, 0) ?aad P = Inr cipher"
    using assms key lens unfolding EncryptDataFrame_library_failure_def Let_def
    by (cases "Filter ?d K ?nonce (size_of ?aad, size_of P, 0) ?aad P") auto
  have "EncryptDataFrame lib P K S R N = Retrieve cipher"
    using key lens filter by (simp add: EncryptDataFrame_def Let_def)
  with filter key lens show thesis
    by (rule that)
qed

lemma EncryptDataFrame_accepted:
  assumes contract: "ccm_round_trip lib"
    and accepted: "\<And>e. \<not> EncryptDataFrame_library_failure lib P K S R N e"
    and small: "length P + 8 < 2 ^ 31"
  obtains C where
    "EncryptDataFrame lib P K S R N = Returns C" "length C = length P + 8"
proof -
  from accepted obtain cipher where
    filter: "Filter (CCM_Encryption lib) K (EncryptDataFrame_nonce S N)
       (size_of (GenerateCCMPAAD S R), size_of P, 0) (GenerateCCMPAAD S R) P = Inr cipher"
    and key: "SetKeyWithIV (CCM_Encryption lib) K (EncryptDataFrame_nonce S N) = None"
    and lens: "SpecifyDataLengths (CCM_Encryption lib) K (EncryptDataFrame_nonce S N)
       (size_of (GenerateCCMPAAD S R)) (size_of P) 0 = None"
    and enc: "EncryptDataFrame lib P K S R N = Retrieve cipher"
    by (rule EncryptDataFrame_no_failure)
  from contract key lens filter have len: "length cipher = length P + 8"
    unfolding ccm_round_trip_def by blast
  with small have "Retrieve cipher = Returns cipher"
    by (simp add: Retrieve_small)
  with enc len show thesis
    by (simp add: that)
qed

lemma DecryptDataFrame_library_failure_empty:
  assumes "DecryptDataFrame_library_failure lib X K S R N e"
  shows "DecryptDataFrame lib X K S R N = Returns []"
  using assms
  by (auto simp: DecryptDataFrame_library_failure_def DecryptDataFrame_def Let_def)

lemma EncryptDataFrame_library_failure_empty:
  assumes "EncryptDataFrame_library_failure lib P K S R N e"
  shows "EncryptDataFrame lib P K S R N = Returns []"
  using assms
  by (auto simp: EncryptDataFrame_library_failure_def EncryptDataFrame_def Let_def)

text \<open>
  Claim C1, amended. For every plaintext \<open>P\<close> of fewer than \<open>2 ^ 31 - 8\<close> bytes, key,
  sender and receiver address and sequence number: if the library does not throw during
  \<open>EncryptDataFrame\<close> (and its CCM decryption inverts its CCM encryption), then
  \<open>EncryptDataFrame\<close> returns a result, and \<open>DecryptDataFrame\<close> of that result with
  the same parameters returns \<open>P\<close>.
\<close>

theorem EncryptDataFrame_DecryptDataFrame_round_trip:
  assumes "ccm_round_trip lib"
    and "\<And>e. \<not> EncryptDataFrame_library_failure lib P K S R N e"
    and "length P + 8 < 2 ^ 31"
  shows "\<exists>C. EncryptDataFrame lib P K S R N = Returns C
             \<and> DecryptDataFrame lib C K S R N = Returns P"
proof -
  from assms obtain C where
    enc: "EncryptDataFrame lib P K S R N = Returns C" and len: "length C = length P + 8"
    by (rule EncryptDataFrame_accepted)
  from len have "C \<noteq> []"
    by auto
  with assms(1) enc have "DecryptDataFrame lib C K S R N = Returns P"
    using assms(3) by (rule DecryptDataFrame_of_EncryptDataFrame(2))
  with enc show ?thesis
    by blast
qed

lemma example_aad:
  "GenerateCCMPAAD example_sender example_receiver =
     [8, 65, 102, 119, 136, 153, 170, 187, 0, 17, 34, 51, 68, 85, 102, 119, 136,
      153, 170, 187, 0, 0]"
  by (simp add: GenerateCCMPAAD_def aad_struct_bytes_def u16_be_bytes_def
      DefaultFrameControl_def example_sender_def example_receiver_def drop_bit_eq_div)

lemma example_nonce:
  "EncryptDataFrame_nonce example_sender 0x1234 = [0, 0, 17, 34, 51, 68, 85, 0, 0, 0, 0, 18, 52]"
  "DecryptDataFrame_nonce example_sender 0x1234 = [0, 0, 17, 34, 51, 68, 85, 0, 0, 0, 0, 18, 52]"
  by (simp_all add: EncryptDataFrame_nonce_def DecryptDataFrame_nonce_def
      packet_number_big_endian example_sender_def drop_bit_eq_div)

lemmas test_library_run =
  EncryptDataFrame_def DecryptDataFrame_def example_aad example_nonce
  DecryptDataFrame_message_length_def size_of_def test_library_simps test_SetKeyWithIV_def
  test_SpecifyDataLengths_def ccm_max_message_length_def test_Encryption_Filter_def
  test_Decryption_Filter_def test_tag_def test_pad_def Retrieve_def
  example_key_def Let_def

lemma example_encrypt:
  "EncryptDataFrame test_library [1, 2, 3] example_key example_sender example_receiver 0x1234
     = Returns [188, 191, 190, 209, 209, 209, 209, 209, 209, 209, 209]"
  by (simp add: test_library_run)

lemma example_accepted:
  "\<not> EncryptDataFrame_library_failure test_library [1, 2, 3] example_key
       example_sender example_receiver 0x1234 e"
  "\<not> EncryptDataFrame_library_failure test_library [] example_key
       example_sender example_receiver 0x1234 e"
  by (simp_all add: EncryptDataFrame_library_failure_def test_library_run)

theorem EncryptDataFrame_DecryptDataFrame_round_trip_witness:
  "EncryptDataFrame test_library [1, 2, 3] example_key example_sender example_receiver 0x1234
     = Returns [188, 191, 190, 209, 209, 209, 209, 209, 209, 209, 209]
   \<and> DecryptDataFrame test_library [188, 191, 190, 209, 209, 209, 209, 209, 209, 209, 209]
       example_key example_sender example_receiver 0x1234 = Returns [1, 2, 3]"
proof -
  have "length [1, 2, 3 :: u8] + 8 < 2 ^ 31"
    by simp
  from EncryptDataFrame_DecryptDataFrame_round_trip
    [OF test_library_round_trip example_accepted(1) this]
  show ?thesis
    by (simp add: example_encrypt)
qed

text \<open>
  The claim as stated, for every plaintext, fails where the library refuses the
  plaintext: a 13-byte nonce leaves CCM a 2-byte length field, so a plaintext of 65536
  bytes is refused, \<open>EncryptDataFrame\<close> returns the empty vector, and decrypting that
  does not give the plaintext back.
\<close>

theorem EncryptDataFrame_DecryptDataFrame_round_trip_counterexample:
  "EncryptDataFrame test_library (replicate 65536 0) example_key example_sender
     example_receiver 0x1234 = Returns []
   \<and> DecryptDataFrame test_library [] example_key example_sender example_receiver 0x1234
       \<noteq> Returns (replicate 65536 0)"
  by (simp add: test_library_run)

subsection \<open>Tampered frames\<close>









subsection \<open>The failure signal\<close>

text \<open>
  Claim C8. Whenever the library throws in \<open>EncryptDataFrame\<close> or in
  \<open>DecryptDataFrame\<close>, at whichever call and whatever the exception, the function
  returns the empty byte vector: the same value on both paths, for every exception.
\<close>

theorem library_failure_gives_empty_result:
  "(EncryptDataFrame_library_failure lib P K S R N e
      \<longrightarrow> EncryptDataFrame lib P K S R N = Returns [])
   \<and> (DecryptDataFrame_library_failure lib X K S R N e'
      \<longrightarrow> DecryptDataFrame lib X K S R N = Returns [])"
  using EncryptDataFrame_library_failure_empty DecryptDataFrame_library_failure_empty
  by blast

lemma example_failures:
  "EncryptDataFrame_library_failure test_library [1, 2, 3] [1, 2, 3]
     example_sender example_receiver 0x1234 InvalidKeyLength"
  "EncryptDataFrame_library_failure test_library (replicate 65536 0) example_key
     example_sender example_receiver 0x1234 InvalidArgument"
  "DecryptDataFrame_library_failure test_library
     [188, 191, 190, 208, 209, 209, 209, 209, 209, 209, 209]
     example_key example_sender example_receiver 0x1234 HashVerificationFailed"
  "DecryptDataFrame_library_failure test_library [1, 2, 3]
     example_key example_sender example_receiver 0x1234 InvalidArgument"
  by (simp_all add: EncryptDataFrame_library_failure_def DecryptDataFrame_library_failure_def
      test_library_run)

theorem library_failure_gives_empty_result_witness:
  "EncryptDataFrame_library_failure test_library (replicate 65536 0) example_key
     example_sender example_receiver 0x1234 InvalidArgument
   \<and> EncryptDataFrame test_library (replicate 65536 0) example_key
       example_sender example_receiver 0x1234 = Returns []
   \<and> DecryptDataFrame_library_failure test_library
       [188, 191, 190, 208, 209, 209, 209, 209, 209, 209, 209]
       example_key example_sender example_receiver 0x1234 HashVerificationFailed
   \<and> DecryptDataFrame test_library [188, 191, 190, 208, 209, 209, 209, 209, 209, 209, 209]
       example_key example_sender example_receiver 0x1234 = Returns []"
  using library_failure_gives_empty_result
    [where lib = test_library and P = "replicate 65536 0" and K = example_key
       and S = example_sender and R = example_receiver and N = "0x1234" and e = InvalidArgument
       and X = "[188, 191, 190, 208, 209, 209, 209, 209, 209, 209, 209]"
       and e' = HashVerificationFailed]
    example_failures(2,3)
  by simp




subsection \<open>Inputs shorter than the tag\<close>

lemma unat_message_length_short:
  assumes "length X < 8"
  shows "unat (DecryptDataFrame_message_length X) = 2 ^ 64 - 8 + length X"
proof -
  have "size_of X < 8"
    using assms by (simp add: size_of_def word_less_nat_alt unat_of_nat)
  moreover have "unat (size_of X) = length X"
    using assms by (simp add: size_of_def unat_of_nat)
  ultimately show ?thesis
    using assms
    by (simp add: DecryptDataFrame_message_length_def unat_sub_if_size word_size
        word_less_nat_alt)
qed

lemma DecryptDataFrame_short_input:
  assumes "length X < 8"
  shows "DecryptDataFrame lib X K S R N =
           (if SetKeyWithIV (CCM_Decryption lib) K (DecryptDataFrame_nonce S N) = None
               \<and> SpecifyDataLengths (CCM_Decryption lib) K (DecryptDataFrame_nonce S N)
                    (size_of (GenerateCCMPAAD S R)) (DecryptDataFrame_message_length X) 0 = None
            then Out_Of_Bounds else Returns [])"
  using assms by (auto simp: DecryptDataFrame_def Let_def split: option.splits)

text \<open>
  Claim C7, amended. For every input shorter than 8 bytes the subtraction
  \<open>size - 8\<close> wraps around to \<open>2 ^ 64 - 8 + size\<close>, and that value is what the
  library is given as the message length; when the library refuses it (or refuses the
  key or the nonce), \<open>DecryptDataFrame\<close> returns the empty vector, and no byte of the
  input has been read.
\<close>

theorem short_input_rejected_by_library:
  assumes "length X < 8"
    and "SetKeyWithIV (CCM_Decryption lib) K (DecryptDataFrame_nonce S N) = Some e
       \<or> SpecifyDataLengths (CCM_Decryption lib) K (DecryptDataFrame_nonce S N)
            (size_of (GenerateCCMPAAD S R)) (DecryptDataFrame_message_length X) 0 = Some e"
  shows "unat (DecryptDataFrame_message_length X) = 2 ^ 64 - 8 + length X
       \<and> DecryptDataFrame lib X K S R N = Returns []"
proof -
  from assms(2) have "DecryptDataFrame lib X K S R N = Returns []"
    by (auto simp: DecryptDataFrame_def Let_def split: option.splits)
  with assms(1) show ?thesis
    by (simp add: unat_message_length_short)
qed

theorem short_input_rejected_by_library_witness:
  "unat (DecryptDataFrame_message_length [1, 2, 3]) = 2 ^ 64 - 8 + 3
   \<and> SpecifyDataLengths (CCM_Decryption test_library) example_key
       (DecryptDataFrame_nonce example_sender 0x1234)
       (size_of (GenerateCCMPAAD example_sender example_receiver))
       (DecryptDataFrame_message_length [1, 2, 3]) 0 = Some InvalidArgument
   \<and> DecryptDataFrame test_library [1, 2, 3] example_key example_sender example_receiver 0x1234
       = Returns []"
proof -
  have short: "length [1, 2, 3 :: u8] < 8"
    by simp
  have rejected:
    "SpecifyDataLengths (CCM_Decryption test_library) example_key
       (DecryptDataFrame_nonce example_sender 0x1234)
       (size_of (GenerateCCMPAAD example_sender example_receiver))
       (DecryptDataFrame_message_length [1, 2, 3]) 0 = Some InvalidArgument"
    by (simp add: test_library_run)
  from short_input_rejected_by_library [OF short disjI2, OF rejected] rejected
  show ?thesis
    by simp
qed

text \<open>
  The claim as stated says that the length computation does not underflow; for the empty
  input it does.
\<close>

theorem short_input_length_counterexample:
  "DecryptDataFrame_message_length [] = 0xFFFFFFFFFFFFFFF8
   \<and> uint (DecryptDataFrame_message_length []) \<noteq> int (length ([] :: u8 list)) - 8"
  by (simp add: DecryptDataFrame_message_length_def size_of_def)

end
